theory Spec2Isabelle
  imports Main "HOL-Library.Sublist"
begin

section \<open>JavaScript values used by the sources\<close>

text \<open>
  An optional string (\<open>string | undefined\<close>) is a \<open>string option\<close>. In a condition
  JavaScript treats \<open>undefined\<close> and the empty string as false and every other string
  as true.
\<close>

fun truthy :: "string option \<Rightarrow> bool" where
  "truthy None = False"
| "truthy (Some s) = (s \<noteq> [])"

text \<open>\<open>String.prototype.includes\<close>: the search string occurs somewhere in the string.\<close>

fun String_includes :: "string \<Rightarrow> string \<Rightarrow> bool" where
  "String_includes [] searchString = (searchString = [])"
| "String_includes (c # cs) searchString =
     (prefix searchString (c # cs) \<or> String_includes cs searchString)"

section \<open>jupyterDebuggerNotInstalledError.ts\<close>

text \<open>
  The class extends \<open>Error\<close>; the only field the constructor sets is the message handed
  to \<open>super\<close>. The localized string \<open>localize.DataScience.jupyterDebuggerNotInstalledError()\<close>
  lives in another module and is taken as the parameter \<open>jupyterDebuggerNotInstalledError\<close>.
\<close>

record Error =
  message :: string

definition JupyterDebuggerNotInstalledError :: "string \<Rightarrow> string option \<Rightarrow> Error" where
  "JupyterDebuggerNotInstalledError jupyterDebuggerNotInstalledError msg =
     (let errorMessage = (if truthy msg then the msg else jupyterDebuggerNotInstalledError)
      in \<lparr>message = errorMessage\<rparr>)"

section \<open>nativeCell.tsx: data\<close>

text \<open>
  The enumerations the component imports. Only the members this file mentions are listed
  for \<open>NativeCommandType\<close> and \<open>ImageName\<close>.
\<close>

datatype OSType = Unknown | Windows | OSX | Linux

datatype CursorPos = CursorPos_Top | CursorPos_Bottom | CursorPos_Current

datatype CellState =
  CellState_editing | CellState_init | CellState_executing | CellState_finished | CellState_error

datatype NativeCommandType =
  AddToEnd | ArrowDown | ArrowUp | ChangeToCode | ChangeToMarkdown | DeleteCell
| InsertAbove | InsertBelow | MoveCellDown | MoveCellUp | Redo | Run | RunAndAdd
| RunAndMove | ToggleLineNumbers | ToggleOutput | Undo | Unfocus

datatype ImageName =
  ImageName_Up | ImageName_Down | ImageName_InsertBelow | ImageName_Run
| ImageName_SwitchToMarkdown | ImageName_SwitchToCode | ImageName_GatherCode | ImageName_Delete

text \<open>A value that may be absent (\<open>undefined\<close>) or \<open>null\<close>.\<close>

datatype 'a nullable = Js_undefined | Js_null | Js_value 'a

text \<open>\<open>nbformat.MultilineString\<close> is \<open>string | string[]\<close>.\<close>

datatype MultilineString = Str string | Arr "string list"

text \<open>
  \<open>cell.data\<close> is a JavaScript object whose \<open>cell_type\<close> is a string the code compares
  with \<open>'code'\<close>, \<open>'markdown'\<close> and \<open>'messages'\<close>. Fields that a cell may lack are
  optional: \<open>outputs\<close> is \<open>Some\<close> exactly when it is an array, \<open>execution_count\<close>
  is a number, \<open>null\<close> or absent. \<open>messages\<close> is read for a cell of type \<open>'messages'\<close>
  only.
\<close>

record CellData =
  cell_type :: string
  source :: MultilineString
  execution_count :: "int nullable"
  outputs :: "string list option"
  messages :: "string list"

text \<open>
  \<open>ICell\<close>. Its field \<open>id\<close> is \<open>id_cell\<close> here, since \<open>id\<close> is the identity function
  of HOL.
\<close>

record ICell =
  id_cell :: string
  state :: CellState
  data :: CellData

record ICellViewModel =
  cell :: ICell
  inputBlockShow :: bool
  editable :: bool
  showLineNumbers :: "bool option"
  hideOutput :: "bool option"
  selected :: bool
  focused :: bool
  hasBeenRun :: "bool option"

text \<open>\<open>IFont\<close>; its field \<open>size\<close> is \<open>size_font\<close> here.\<close>

record IFont =
  size_font :: int
  family :: string

text \<open>
  \<open>INativeCellBaseProps\<close>. The action creators that \<open>INativeCellProps\<close> adds are not
  data here: calling one is an \<open>effect\<close> below.
\<close>

record INativeCellProps =
  role :: "string option"
  cellVM :: ICellViewModel
  baseTheme :: string
  codeTheme :: string
  testMode :: "bool option"
  maxTextSize :: "int option"
  monacoTheme :: "string option"
  lastCell :: bool
  firstCell :: bool
  font :: IFont
  allowUndo :: bool
  enableGather :: "bool option"
  editorOptions :: "(string \<times> string) list"
  themeMatplotlibPlots :: "bool option"

text \<open>
  What the component calls, in the order it calls it: the methods of the event
  (\<open>stopPropagation\<close>, \<open>preventDefault\<close>), the DOM calls on the wrapper element, and the
  action creators of its props with their arguments. The move operation of
  \<open>executeCell\<close> and the source of \<open>sendCommand\<close> are the string literals of the code.
\<close>

datatype effect =
  stopPropagation
| preventDefault
| wrapperFocus
| wrapperScrollIntoView
| selectCell string
| focusCell string CursorPos
| unfocusCell string string
| changeCellType string string
| sendCommand NativeCommandType string
| executeCell string string string
| deleteCell string
| insertAbove string
| insertBelow string
| undo
| redo
| save
| toggleLineNumbers string
| toggleOutput string
| arrowUp string string
| arrowDown string string
| moveCellUp string
| moveCellDown string
| gatherCell string

text \<open>\<open>IKeyboardEvent\<close> with its optional \<open>editorInfo\<close>.\<close>

record EditorInfo =
  isFirstLine :: bool
  isLastLine :: bool
  isSuggesting :: bool
  isDirty :: bool
  contents :: string

record IKeyboardEvent =
  code :: string
  shiftKey :: bool
  ctrlKey :: bool
  metaKey :: bool
  altKey :: bool
  editorInfo :: "EditorInfo option"

text \<open>
  \<open>React.KeyboardEvent\<close> as \<open>onOuterKeyDown\<close> reads it.
\<close>

record KeyboardEvent =
  key :: string
  shiftKey_outer :: bool
  ctrlKey_outer :: bool
  metaKey_outer :: bool
  altKey_outer :: bool

text \<open>
  The target of a mouse event. \<open>className\<close> of an HTML element is a string; of an SVG
  element it is an object with no \<open>includes\<close> method.
\<close>

datatype ClassName = ClassName_string string | ClassName_object

record HTMLElement =
  className :: ClassName

record MouseEvent =
  nativeEvent_target :: "HTMLElement option"

text \<open>
  The wrapper \<open>div\<close> behind \<open>wrapperRef.current\<close>: whether it contains the document's
  active element and whether it has \<open>scrollIntoView\<close>.
\<close>

record HTMLDivElement =
  containsActiveElement :: bool
  hasScrollIntoView :: bool

text \<open>
  The component instance: its props and its three private fields. \<open>inputRef_current\<close> is
  \<open>None\<close> when no \<open>CellInput\<close> is mounted and otherwise holds what its \<open>getContents()\<close>
  returns (\<open>string | undefined\<close>).
\<close>

record NativeCell =
  props :: INativeCellProps
  inputRef_current :: "string option option"
  wrapperRef_current :: "HTMLDivElement option"
  lastKeyPressed :: "string option"

text \<open>
  What the file imports from modules that are not part of it, as parameters:
  the third-party \<open>fast-deep-equal\<close>, \<open>concatMultilineStringInput\<close>, \<open>getOSType()\<close>,
  \<open>getLocString\<close> and the constant \<open>Identifiers.EditCellId\<close>.
\<close>

record modules =
  fastDeepEqual :: "INativeCellProps \<Rightarrow> INativeCellProps \<Rightarrow> bool"
  concatMultilineStringInput :: "MultilineString \<Rightarrow> string"
  getOSType :: OSType
  getLocString :: "string \<Rightarrow> string \<Rightarrow> string"
  EditCellId :: string

section \<open>nativeCell.tsx: accessors and event handlers\<close>

definition shouldComponentUpdate :: "modules \<Rightarrow> NativeCell \<Rightarrow> INativeCellProps \<Rightarrow> bool" where
  "shouldComponentUpdate im this nextProps = (\<not> fastDeepEqual im (props this) nextProps)"

definition giveFocus :: "NativeCell \<Rightarrow> effect list" where
  "giveFocus this =
     (case wrapperRef_current this of
        None \<Rightarrow> []
      | Some w \<Rightarrow>
          (if \<not> containsActiveElement w then [wrapperFocus] else []) @
          (if hasScrollIntoView w then [wrapperScrollIntoView] else []))"

text \<open>\<open>componentDidUpdate\<close> runs on the instance that already holds the new props.\<close>

definition componentDidUpdate :: "NativeCell \<Rightarrow> INativeCellProps \<Rightarrow> effect list \<times> NativeCell" where
  "componentDidUpdate this prevProps =
     ((if selected (cellVM (props this)) \<and> \<not> selected (cellVM prevProps) \<and>
          \<not> focused (cellVM (props this))
       then giveFocus this else []),
      this\<lparr>lastKeyPressed := None\<rparr>)"

definition getCell :: "NativeCell \<Rightarrow> ICell" where
  "getCell this = cell (cellVM (props this))"

definition isCodeCell :: "NativeCell \<Rightarrow> bool" where
  "isCodeCell this = (cell_type (data (cell (cellVM (props this)))) = ''code'')"

definition isMarkdownCell :: "NativeCell \<Rightarrow> bool" where
  "isMarkdownCell this = (cell_type (data (cell (cellVM (props this)))) = ''markdown'')"

definition isSelected :: "NativeCell \<Rightarrow> bool" where
  "isSelected this = selected (cellVM (props this))"

definition isFocused :: "NativeCell \<Rightarrow> bool" where
  "isFocused this = focused (cellVM (props this))"

text \<open>The getter \<open>cellId\<close>.\<close>

definition get_cellId :: "NativeCell \<Rightarrow> string" where
  "get_cellId this = id_cell (cell (cellVM (props this)))"

definition onMouseClick :: "NativeCell \<Rightarrow> MouseEvent \<Rightarrow> effect list \<times> NativeCell" where
  "onMouseClick this ev =
     (case nativeEvent_target ev of
        None \<Rightarrow> ([], this)
      | Some elem \<Rightarrow>
          (case className elem of
             ClassName_object \<Rightarrow>
               ([stopPropagation, selectCell (get_cellId this)], this\<lparr>lastKeyPressed := None\<rparr>)
           | ClassName_string c \<Rightarrow>
               if \<not> String_includes c ''image-button''
               then ([stopPropagation, selectCell (get_cellId this)], this\<lparr>lastKeyPressed := None\<rparr>)
               else ([], this)))"

definition onMouseDoubleClick :: "NativeCell \<Rightarrow> MouseEvent \<Rightarrow> effect list" where
  "onMouseDoubleClick this ev = [stopPropagation, focusCell (get_cellId this) CursorPos_Current]"

definition getCurrentCode :: "modules \<Rightarrow> NativeCell \<Rightarrow> string" where
  "getCurrentCode im this =
     (let contents = (case inputRef_current this of
                        Some getContents \<Rightarrow> getContents
                      | None \<Rightarrow> None)
      in if truthy contents then the contents
         else concatMultilineStringInput im (source (data (cell (cellVM (props this))))))"

definition escapeCell :: "NativeCell \<Rightarrow> IKeyboardEvent \<Rightarrow> effect list" where
  "escapeCell this e =
     (if wrapperRef_current this \<noteq> None \<and> isFocused this
      then [stopPropagation, wrapperFocus, sendCommand Unfocus ''keyboard'']
      else [])"

definition arrowUpFromCell :: "modules \<Rightarrow> NativeCell \<Rightarrow> IKeyboardEvent \<Rightarrow> effect list" where
  "arrowUpFromCell im this e =
     [stopPropagation, preventDefault, arrowUp (get_cellId this) (getCurrentCode im this),
      sendCommand ArrowUp ''keyboard'']"

definition arrowDownFromCell :: "modules \<Rightarrow> NativeCell \<Rightarrow> IKeyboardEvent \<Rightarrow> effect list" where
  "arrowDownFromCell im this e =
     [stopPropagation, preventDefault, arrowDown (get_cellId this) (getCurrentCode im this),
      sendCommand ArrowDown ''keyboard'']"

definition enterCell :: "NativeCell \<Rightarrow> IKeyboardEvent \<Rightarrow> effect list" where
  "enterCell this e =
     (if \<not> isFocused this \<and> editorInfo e = None \<and> isSelected this
      then [stopPropagation, preventDefault, focusCell (get_cellId this) CursorPos_Current]
      else [])"

definition submitCell :: "modules \<Rightarrow> NativeCell \<Rightarrow> string option \<Rightarrow> string \<Rightarrow> effect list" where
  "submitCell im this possibleContents moveOp =
     (let content = (case possibleContents of
                       Some c \<Rightarrow> c
                     | None \<Rightarrow> concatMultilineStringInput im (source (data (cell (cellVM (props this))))))
      in if content \<noteq> [] then [executeCell (get_cellId this) content moveOp] else [])"

definition runAndMove :: "modules \<Rightarrow> NativeCell \<Rightarrow> string option \<Rightarrow> effect list" where
  "runAndMove im this possibleContents =
     submitCell im this possibleContents (if lastCell (props this) then ''add'' else ''select'')"

definition runAndAdd :: "modules \<Rightarrow> NativeCell \<Rightarrow> string option \<Rightarrow> effect list" where
  "runAndAdd im this possibleContents = submitCell im this possibleContents ''add''"

definition shiftEnterCell :: "modules \<Rightarrow> NativeCell \<Rightarrow> IKeyboardEvent \<Rightarrow> effect list" where
  "shiftEnterCell im this e =
     [stopPropagation, preventDefault] @
     runAndMove im this (case editorInfo e of Some i \<Rightarrow> Some (contents i) | None \<Rightarrow> None) @
     [sendCommand RunAndMove ''keyboard'']"

definition altEnterCell :: "modules \<Rightarrow> NativeCell \<Rightarrow> IKeyboardEvent \<Rightarrow> effect list" where
  "altEnterCell im this e =
     [stopPropagation, preventDefault] @
     runAndAdd im this (case editorInfo e of Some i \<Rightarrow> Some (contents i) | None \<Rightarrow> None) @
     [sendCommand RunAndAdd ''keyboard'']"

definition ctrlEnterCell :: "modules \<Rightarrow> NativeCell \<Rightarrow> IKeyboardEvent \<Rightarrow> effect list" where
  "ctrlEnterCell im this e =
     [stopPropagation, preventDefault] @
     submitCell im this (case editorInfo e of Some i \<Rightarrow> Some (contents i) | None \<Rightarrow> None) ''none'' @
     [sendCommand Run ''keyboard'']"

definition addNewCell :: "NativeCell \<Rightarrow> effect list" where
  "addNewCell this = [insertBelow (get_cellId this), sendCommand AddToEnd ''mouse'']"

definition onCodeFocused :: "NativeCell \<Rightarrow> effect list" where
  "onCodeFocused this = [focusCell (get_cellId this) CursorPos_Current]"

definition onCodeUnfocused :: "modules \<Rightarrow> NativeCell \<Rightarrow> effect list" where
  "onCodeUnfocused im this = [unfocusCell (get_cellId this) (getCurrentCode im this)]"

text \<open>
  \<open>keyDownInput\<close>: the \<open>switch\<close> on \<open>e.code\<close>, then the assignment to
  \<open>lastKeyPressed\<close> that ends the method. The result is what was called, in order, and
  the instance afterwards.
\<close>

definition keyDownInput ::
  "modules \<Rightarrow> NativeCell \<Rightarrow> string \<Rightarrow> IKeyboardEvent \<Rightarrow> effect list \<times> NativeCell" where
  "keyDownInput im this cellId e =
     (let isFocusedWhenNotSuggesting =
            (isFocused this \<and> (case editorInfo e of None \<Rightarrow> False | Some i \<Rightarrow> \<not> isSuggesting i));
          (effects, this') =
            (if code e = ''ArrowUp'' \<or> code e = ''k'' then
               (if (isFocusedWhenNotSuggesting \<and>
                    (case editorInfo e of None \<Rightarrow> False | Some i \<Rightarrow> isFirstLine i) \<and>
                    \<not> shiftKey e) \<or> \<not> isFocused this
                then (arrowUpFromCell im this e, this) else ([], this))
             else if code e = ''ArrowDown'' \<or> code e = ''j'' then
               (if (isFocusedWhenNotSuggesting \<and>
                    (case editorInfo e of None \<Rightarrow> False | Some i \<Rightarrow> isLastLine i) \<and>
                    \<not> shiftKey e) \<or> \<not> isFocused this
                then (arrowDownFromCell im this e, this) else ([], this))
             else if code e = ''s'' then
               (if (ctrlKey e \<and> getOSType im \<noteq> OSX) \<or> (metaKey e \<and> getOSType im = OSX)
                then ([save], this) else ([], this))
             else if code e = ''Escape'' then
               (if isFocusedWhenNotSuggesting then (escapeCell this e, this) else ([], this))
             else if code e = ''y'' then
               (if \<not> isFocused this \<and> isSelected this \<and> isMarkdownCell this
                then ([stopPropagation, preventDefault,
                       changeCellType cellId (getCurrentCode im this),
                       sendCommand ChangeToCode ''keyboard''], this)
                else ([], this))
             else if code e = ''m'' then
               (if \<not> isFocused this \<and> isSelected this \<and> isCodeCell this
                then ([stopPropagation, preventDefault,
                       changeCellType cellId (getCurrentCode im this),
                       sendCommand ChangeToMarkdown ''keyboard''], this)
                else ([], this))
             else if code e = ''l'' then
               (if \<not> isFocused this \<and> isSelected this
                then ([stopPropagation, toggleLineNumbers cellId,
                       sendCommand ToggleLineNumbers ''keyboard''], this)
                else ([], this))
             else if code e = ''o'' then
               (if \<not> isFocused this \<and> isSelected this
                then ([stopPropagation, toggleOutput cellId,
                       sendCommand ToggleOutput ''keyboard''], this)
                else ([], this))
             else if code e = ''Enter'' then
               (if shiftKey e then (shiftEnterCell im this e, this)
                else if ctrlKey e then (ctrlEnterCell im this e, this)
                else if altKey e then (altEnterCell im this e, this)
                else (enterCell this e, this))
             else if code e = ''d'' then
               (if lastKeyPressed this = Some ''d'' \<and> \<not> isFocused this \<and> isSelected this
                then ([stopPropagation, deleteCell cellId, sendCommand DeleteCell ''keyboard''],
                      this\<lparr>lastKeyPressed := None\<rparr>)
                else ([], this))
             else if code e = ''a'' then
               (if \<not> isFocused this
                then ([stopPropagation, insertAbove cellId, sendCommand InsertAbove ''keyboard''], this)
                else ([], this))
             else if code e = ''b'' then
               (if \<not> isFocused this
                then ([stopPropagation, insertBelow cellId, sendCommand InsertBelow ''keyboard''], this)
                else ([], this))
             else if code e = ''z'' \<or> code e = ''Z'' then
               (if \<not> isFocused this then
                  (if shiftKey e \<and> \<not> ctrlKey e \<and> \<not> altKey e
                   then ([stopPropagation, redo, sendCommand Redo ''keyboard''], this)
                   else if \<not> shiftKey e \<and> \<not> altKey e \<and> \<not> ctrlKey e
                   then ([stopPropagation, undo, sendCommand Undo ''keyboard''], this)
                   else ([], this))
                else ([], this))
             else ([], this))
      in (effects, this'\<lparr>lastKeyPressed := Some (code e)\<rparr>))"

definition onOuterKeyDown :: "modules \<Rightarrow> NativeCell \<Rightarrow> KeyboardEvent \<Rightarrow> effect list \<times> NativeCell" where
  "onOuterKeyDown im this event =
     (if key event \<noteq> ''Tab'' \<and> \<not> isFocused this
      then keyDownInput im this (id_cell (cell (cellVM (props this))))
             \<lparr>code = key event, shiftKey = shiftKey_outer event, ctrlKey = ctrlKey_outer event,
              metaKey = metaKey_outer event, altKey = altKey_outer event, editorInfo = None\<rparr>
      else ([], this))"

section \<open>nativeCell.tsx: rendering\<close>

text \<open>
  Markup as a tree: an element or component with its attributes and children, or
  \<open>null\<close>. A handler passed as an attribute is recorded by its name.
\<close>

datatype attr =
  S string
| B bool
| N int
| Undefined
| Handler string
| Ref string
| Strings "string list"
| VM ICellViewModel
| Font IFont
| Options "(string \<times> string) list"
| Img ImageName

datatype jsx = Null | Element string "(string \<times> attr) list" "jsx list"

text \<open>\<open>Number.prototype.toString()\<close> on an integer.\<close>

fun digits :: "nat \<Rightarrow> string" where
  "digits n = (if n < 10 then [''0123456789'' ! n]
               else digits (n div 10) @ [''0123456789'' ! (n mod 10)])"

declare digits.simps [simp del]

definition toString :: "int \<Rightarrow> string" where
  "toString n = (if n < 0 then ''-'' @ digits (nat (- n)) else digits (nat n))"

definition isShowingMarkdownEditor :: "NativeCell \<Rightarrow> bool" where
  "isShowingMarkdownEditor this = (isMarkdownCell this \<and> focused (cellVM (props this)))"

definition shouldRenderCodeEditor :: "NativeCell \<Rightarrow> bool" where
  "shouldRenderCodeEditor this =
     (isCodeCell this \<and> (inputBlockShow (cellVM (props this)) \<or> editable (cellVM (props this))))"

definition shouldRenderMarkdownEditor :: "modules \<Rightarrow> NativeCell \<Rightarrow> bool" where
  "shouldRenderMarkdownEditor im this =
     (isMarkdownCell this \<and>
      (isShowingMarkdownEditor this \<or> id_cell (cell (cellVM (props this))) = EditCellId im))"

definition shouldRenderInput :: "modules \<Rightarrow> NativeCell \<Rightarrow> bool" where
  "shouldRenderInput im this = (shouldRenderCodeEditor this \<or> shouldRenderMarkdownEditor im this)"

definition hasOutput :: "NativeCell \<Rightarrow> bool" where
  "hasOutput this =
     (state (getCell this) = CellState_finished \<or> state (getCell this) = CellState_error \<or>
      state (getCell this) = CellState_executing)"

definition shouldRenderOutput :: "NativeCell \<Rightarrow> bool" where
  "shouldRenderOutput this =
     (if isCodeCell this then
        hasOutput this \<and> hideOutput (cellVM (props this)) \<noteq> Some True \<and>
        (case outputs (data (cell (cellVM (props this)))) of
           None \<Rightarrow> False
         | Some os \<Rightarrow> length os \<noteq> 0)
      else if isMarkdownCell this then \<not> isShowingMarkdownEditor this
      else False)"

definition renderCollapseBar :: "NativeCell \<Rightarrow> bool \<Rightarrow> jsx" where
  "renderCollapseBar this input =
     (let classes0 = ''collapse-bar'';
          classes1 = (if isSelected this \<and> \<not> isFocused this
                      then classes0 @ '' collapse-bar-selected'' else classes0);
          classes2 = (if isFocused this then classes1 @ '' collapse-bar-focused'' else classes1)
      in if input then Element ''div'' [(''className'', S classes2)] []
         else if cell_type (data (cell (cellVM (props this)))) = ''markdown''
         then Element ''div'' [(''className'', S (classes2 @ '' collapse-bar-markdown''))] []
         else if (case outputs (data (cell (cellVM (props this)))) of
                    None \<Rightarrow> False
                  | Some os \<Rightarrow> length os \<noteq> 0)
         then Element ''div'' [(''className'', S (classes2 @ '' collapse-bar-output''))] []
         else Null)"

definition renderAddDivider :: "NativeCell \<Rightarrow> bool \<Rightarrow> jsx" where
  "renderAddDivider this checkOutput =
     (if \<not> lastCell (props this) then
        (if \<not> checkOutput \<or> \<not> shouldRenderOutput this
         then Element ''AddCellLine''
                [(''className'', S ''add-divider''), (''baseTheme'', S (baseTheme (props this))),
                 (''includePlus'', B False), (''click'', Handler ''addNewCell'')] []
         else Null)
      else Null)"

definition renderNavbar :: "modules \<Rightarrow> NativeCell \<Rightarrow> jsx" where
  "renderNavbar im this =
     (let addButtonRender =
            (if \<not> lastCell (props this) then
               Element ''div'' [(''className'', S ''navbar-add-button'')]
                 [Element ''ImageButton''
                    [(''baseTheme'', S (baseTheme (props this))), (''onClick'', Handler ''addNewCell''),
                     (''tooltip'', S (getLocString im ''DataScience.insertBelow'' ''Insert cell below''))]
                    [Element ''Image''
                       [(''baseTheme'', S (baseTheme (props this))), (''class'', S ''image-button-image''),
                        (''image'', Img ImageName_InsertBelow)] []]]
             else Null)
      in Element ''div'' [(''className'', S ''navbar-div'')]
           [Element ''div'' []
              [Element ''ImageButton''
                 [(''baseTheme'', S (baseTheme (props this))), (''onClick'', Handler ''moveUp''),
                  (''disabled'', B (firstCell (props this))),
                  (''tooltip'', S (getLocString im ''DataScience.moveCellUp'' ''Move cell up''))]
                 [Element ''Image''
                    [(''baseTheme'', S (baseTheme (props this))), (''class'', S ''image-button-image''),
                     (''image'', Img ImageName_Up)] []]],
            Element ''div'' []
              [Element ''ImageButton''
                 [(''baseTheme'', S (baseTheme (props this))), (''onClick'', Handler ''moveDown''),
                  (''disabled'', B (lastCell (props this))),
                  (''tooltip'', S (getLocString im ''DataScience.moveCellDown'' ''Move cell down''))]
                 [Element ''Image''
                    [(''baseTheme'', S (baseTheme (props this))), (''class'', S ''image-button-image''),
                     (''image'', Img ImageName_Down)] []]],
            addButtonRender])"

text \<open>The closures that \<open>renderNavbar\<close> and \<open>renderMiddleToolbar\<close> hand to their buttons.\<close>

definition renderNavbar_moveUp :: "NativeCell \<Rightarrow> effect list" where
  "renderNavbar_moveUp this = [moveCellUp (get_cellId this), sendCommand MoveCellUp ''mouse'']"

definition renderNavbar_moveDown :: "NativeCell \<Rightarrow> effect list" where
  "renderNavbar_moveDown this = [moveCellDown (get_cellId this), sendCommand MoveCellDown ''mouse'']"

definition renderMiddleToolbar_runCell :: "modules \<Rightarrow> NativeCell \<Rightarrow> effect list" where
  "renderMiddleToolbar_runCell im this = runAndMove im this (Some (getCurrentCode im this)) @ [sendCommand Run ''mouse'']"

definition renderMiddleToolbar_switchCellType :: "modules \<Rightarrow> NativeCell \<Rightarrow> effect list" where
  "renderMiddleToolbar_switchCellType im this =
     (let otherCellType = (if cell_type (data (cell (cellVM (props this)))) = ''code''
                           then ''markdown'' else ''code'');
          otherCellTypeCommand = (if otherCellType = ''markdown'' then ChangeToMarkdown else ChangeToCode)
      in [stopPropagation, preventDefault,
          changeCellType (id_cell (cell (cellVM (props this)))) (getCurrentCode im this),
          sendCommand otherCellTypeCommand ''mouse''])"

definition renderMiddleToolbar_gatherCell :: "NativeCell \<Rightarrow> effect list" where
  "renderMiddleToolbar_gatherCell this = [gatherCell (id_cell (cell (cellVM (props this))))]"

definition renderMiddleToolbar_deleteCell :: "NativeCell \<Rightarrow> effect list" where
  "renderMiddleToolbar_deleteCell this =
     [deleteCell (id_cell (cell (cellVM (props this)))), sendCommand DeleteCell ''mouse'']"

definition renderMiddleToolbar :: "modules \<Rightarrow> NativeCell \<Rightarrow> jsx" where
  "renderMiddleToolbar im this =
     (let gatherDisabled =
            (execution_count (data (cell (cellVM (props this)))) = Js_null \<or>
             hasBeenRun (cellVM (props this)) = None \<or>
             hasBeenRun (cellVM (props this)) = Some False \<or>
             isMarkdownCell this \<or>
             enableGather (props this) = Some False);
          switchTooltip =
            (if cell_type (data (cell (cellVM (props this)))) = ''code''
             then getLocString im ''DataScience.switchToMarkdown'' ''Change to markdown''
             else getLocString im ''DataScience.switchToCode'' ''Change to code'');
          otherCellType = (if cell_type (data (cell (cellVM (props this)))) = ''code''
                           then ''markdown'' else ''code'');
          otherCellImage = (if otherCellType = ''markdown''
                            then ImageName_SwitchToMarkdown else ImageName_SwitchToCode);
          toolbarClassName = (if cell_type (data (cell (cellVM (props this)))) = ''code''
                              then [] else ''markdown-toolbar'')
      in Element ''div'' [(''className'', S toolbarClassName)]
           [Element ''div'' [(''className'', S ''native-editor-celltoolbar-middle'')]
              [Element ''ImageButton''
                 [(''baseTheme'', S (baseTheme (props this))), (''onClick'', Handler ''runCell''),
                  (''tooltip'', S (getLocString im ''DataScience.runCell'' ''Run cell'')),
                  (''hidden'', B (isMarkdownCell this))]
                 [Element ''Image''
                    [(''baseTheme'', S (baseTheme (props this))), (''class'', S ''image-button-image''),
                     (''image'', Img ImageName_Run)] []],
               Element ''ImageButton''
                 [(''baseTheme'', S (baseTheme (props this))),
                  (''onMouseDown'', Handler ''switchCellType''), (''tooltip'', S switchTooltip)]
                 [Element ''Image''
                    [(''baseTheme'', S (baseTheme (props this))), (''class'', S ''image-button-image''),
                     (''image'', Img otherCellImage)] []],
               Element ''ImageButton''
                 [(''baseTheme'', S (baseTheme (props this))), (''onClick'', Handler ''gatherCell''),
                  (''tooltip'', S (getLocString im ''DataScience.gatherCell''
                     ''Gather the code required to generate this cell into a new notebook'')),
                  (''hidden'', B gatherDisabled), (''className'', S ''hover-cell-button'')]
                 [Element ''Image''
                    [(''baseTheme'', S (baseTheme (props this))), (''class'', S ''image-button-image''),
                     (''image'', Img ImageName_GatherCode)] []],
               Element ''ImageButton''
                 [(''baseTheme'', S (baseTheme (props this))), (''onClick'', Handler ''deleteCell''),
                  (''tooltip'', S (getLocString im ''DataScience.deleteCell'' ''Delete cell'')),
                  (''className'', S ''delete-cell-button hover-cell-button'')]
                 [Element ''Image''
                    [(''baseTheme'', S (baseTheme (props this))), (''class'', S ''image-button-image''),
                     (''image'', Img ImageName_Delete)] []]],
            Element ''div'' [(''className'', S ''native-editor-celltoolbar-divider'')] []])"

definition renderControls :: "NativeCell \<Rightarrow> jsx" where
  "renderControls this =
     (let busy = (state (cell (cellVM (props this))) = CellState_init \<or>
                  state (cell (cellVM (props this))) = CellState_executing);
          executionCount =
            (case execution_count (data (cell (cellVM (props this)))) of
               Js_value n \<Rightarrow> if n \<noteq> 0 then toString n else ''-''
             | _ \<Rightarrow> ''-'')
      in Element ''div'' [(''className'', S ''controls-div'')]
           [Element ''ExecutionCount''
              [(''isBusy'', B busy), (''count'', S executionCount),
               (''visible'', B (isCodeCell this))] []])"

definition renderInput :: "modules \<Rightarrow> NativeCell \<Rightarrow> jsx" where
  "renderInput im this =
     (if shouldRenderInput im this then
        Element ''div'' []
          [renderMiddleToolbar im this,
           Element ''CellInput''
             [(''cellVM'', VM (cellVM (props this))),
              (''editorOptions'', Options (editorOptions (props this))),
              (''history'', Undefined),
              (''codeTheme'', S (codeTheme (props this))),
              (''onCodeChange'', Handler ''onCodeChange''),
              (''onCodeCreated'', Handler ''onCodeCreated''),
              (''testMode'', B (testMode (props this) = Some True)),
              (''showWatermark'', B False),
              (''ref'', Ref ''inputRef''),
              (''monacoTheme'', (case monacoTheme (props this) of None \<Rightarrow> Undefined | Some t \<Rightarrow> S t)),
              (''openLink'', Handler ''openLink''),
              (''editorMeasureClassName'', Undefined),
              (''focused'', Handler ''onCodeFocused''),
              (''unfocused'', Handler ''onCodeUnfocused''),
              (''keyDown'', Handler ''keyDownInput''),
              (''showLineNumbers'',
                 (case showLineNumbers (cellVM (props this)) of None \<Rightarrow> Undefined | Some b \<Rightarrow> B b)),
              (''font'', Font (font (props this)))] []]
      else Null)"

definition renderOutput :: "modules \<Rightarrow> NativeCell \<Rightarrow> jsx" where
  "renderOutput im this =
     (let themeMatplotlibPlots' = (themeMatplotlibPlots (props this) = Some True);
          toolbar = (if cell_type (data (cell (cellVM (props this)))) = ''markdown''
                     then renderMiddleToolbar im this else Null)
      in if shouldRenderOutput this then
           Element ''div'' []
             [toolbar,
              Element ''CellOutput''
                [(''cellVM'', VM (cellVM (props this))),
                 (''baseTheme'', S (baseTheme (props this))),
                 (''expandImage'', Handler ''showPlot''),
                 (''maxTextSize'', (case maxTextSize (props this) of None \<Rightarrow> Undefined | Some n \<Rightarrow> N n)),
                 (''themeMatplotlibPlots'', B themeMatplotlibPlots')] []]
         else Null)"

definition renderNormalCell :: "modules \<Rightarrow> NativeCell \<Rightarrow> jsx" where
  "renderNormalCell im this =
     (let cellOuterClass = (if editable (cellVM (props this)) then ''cell-outer-editable'' else ''cell-outer'');
          cellWrapperClass0 = (if editable (cellVM (props this)) then ''cell-wrapper''
                               else ''cell-wrapper cell-wrapper-noneditable'');
          cellWrapperClass1 = (if isSelected this \<and> \<not> isFocused this
                               then cellWrapperClass0 @ '' cell-wrapper-selected''
                               else cellWrapperClass0);
          cellWrapperClass = (if isFocused this then cellWrapperClass1 @ '' cell-wrapper-focused''
                              else cellWrapperClass1);
          content =
            (if isMarkdownCell this \<and> \<not> isShowingMarkdownEditor this then
               Element ''div'' [(''className'', S ''cell-result-container'')]
                 [Element ''div'' [(''className'', S ''cell-row-container'')]
                    [renderCollapseBar this False, renderOutput im this],
                  renderAddDivider this False]
             else
               Element ''div'' [(''className'', S ''cell-result-container'')]
                 [Element ''div'' [(''className'', S ''cell-row-container'')]
                    [renderCollapseBar this True, renderControls this, renderInput im this],
                  renderAddDivider this True,
                  Element ''div'' [(''className'', S ''cell-row-container'')]
                    [renderCollapseBar this False, renderOutput im this]])
      in Element ''div''
           [(''className'', S cellWrapperClass),
            (''role'', (case role (props this) of None \<Rightarrow> Undefined | Some r \<Rightarrow> S r)),
            (''ref'', Ref ''wrapperRef''),
            (''tabIndex'', N 0),
            (''onKeyDown'', Handler ''onOuterKeyDown''),
            (''onClick'', Handler ''onMouseClick''),
            (''onDoubleClick'', Handler ''onMouseDoubleClick'')]
           [Element ''div'' [(''className'', S cellOuterClass)]
              [renderNavbar im this,
               Element ''div'' [(''className'', S ''content-div'')] [content]]])"

definition render :: "modules \<Rightarrow> NativeCell \<Rightarrow> jsx" where
  "render im this =
     (if cell_type (data (cell (cellVM (props this)))) = ''messages''
      then Element ''InformationMessages''
             [(''messages'', Strings (messages (data (cell (cellVM (props this))))))] []
      else renderNormalCell im this)"

section \<open>Concrete inputs\<close>

text \<open>
  A concatenation of a multi-line string for evaluating the definitions at concrete
  inputs. The theorems below hold for every \<open>concatMultilineStringInput\<close>.
\<close>

fun joinLines :: "MultilineString \<Rightarrow> string" where
  "joinLines (Str s) = s"
| "joinLines (Arr ls) = concat ls"

definition sampleModules :: modules where
  "sampleModules =
     \<lparr>fastDeepEqual = (=), concatMultilineStringInput = joinLines, getOSType = Linux,
      getLocString = (\<lambda>key defValue. defValue), EditCellId = ''edit''\<rparr>"

text \<open>A cell view-model of the given type and source with the given flags.\<close>

definition sampleCellVM :: "string \<Rightarrow> string \<Rightarrow> MultilineString \<Rightarrow> bool \<Rightarrow> bool \<Rightarrow> ICellViewModel" where
  "sampleCellVM ident ty src sel foc =
     \<lparr>cell = \<lparr>id_cell = ident, state = CellState_finished,
              data = \<lparr>cell_type = ty, source = src, execution_count = Js_value 1,
                      outputs = Some [], messages = [''Connected'']\<rparr>\<rparr>,
      inputBlockShow = True, editable = True, showLineNumbers = None, hideOutput = None,
      selected = sel, focused = foc, hasBeenRun = Some True\<rparr>"

definition sampleProps :: "ICellViewModel \<Rightarrow> bool \<Rightarrow> INativeCellProps" where
  "sampleProps vm isLast =
     \<lparr>role = None, cellVM = vm, baseTheme = ''vscode-light'', codeTheme = ''light'',
      testMode = None, maxTextSize = None, monacoTheme = None, lastCell = isLast,
      firstCell = False, font = \<lparr>size_font = 14, family = ''monospace''\<rparr>, allowUndo = False,
      enableGather = None, editorOptions = [], themeMatplotlibPlots = None\<rparr>"

text \<open>
  A mounted component: its wrapper element exists, its editor (when \<open>input\<close> is not
  \<open>None\<close>) returns \<open>input\<close> from \<open>getContents()\<close>, and \<open>lastKey\<close> is the key it
  handled last.
\<close>

definition sampleCell ::
  "INativeCellProps \<Rightarrow> string option option \<Rightarrow> string option \<Rightarrow> NativeCell" where
  "sampleCell p input lastKey =
     \<lparr>props = p, inputRef_current = input,
      wrapperRef_current = Some \<lparr>containsActiveElement = False, hasScrollIntoView = True\<rparr>,
      lastKeyPressed = lastKey\<rparr>"

text \<open>A key press with the given code and shift flag and no other modifier.\<close>

definition sampleKey :: "string \<Rightarrow> bool \<Rightarrow> EditorInfo option \<Rightarrow> IKeyboardEvent" where
  "sampleKey c shift info =
     \<lparr>code = c, shiftKey = shift, ctrlKey = False, metaKey = False, altKey = False,
      editorInfo = info\<rparr>"

definition sampleEditorInfo :: "string \<Rightarrow> EditorInfo" where
  "sampleEditorInfo text =
     \<lparr>isFirstLine = True, isLastLine = True, isSuggesting = False, isDirty = False,
      contents = text\<rparr>"

section \<open>Predicates on what was dispatched\<close>

fun is_changeCellType :: "effect \<Rightarrow> bool" where
  "is_changeCellType (changeCellType c s) = True"
| "is_changeCellType x = False"

fun is_executeCell :: "effect \<Rightarrow> bool" where
  "is_executeCell (executeCell c s m) = True"
| "is_executeCell x = False"

fun is_deleteCell :: "effect \<Rightarrow> bool" where
  "is_deleteCell (deleteCell c) = True"
| "is_deleteCell x = False"

text \<open>
  The element \<open>renderNormalCell\<close> returns: the \<open>div\<close> that carries \<open>wrapperRef\<close> and the
  three event handlers of the cell.
\<close>

fun isCellWrapper :: "jsx \<Rightarrow> bool" where
  "isCellWrapper Null = False"
| "isCellWrapper (Element tag attrs children) =
     (tag = ''div'' \<and> map_of attrs ''ref'' = Some (Ref ''wrapperRef'') \<and>
      map_of attrs ''onKeyDown'' = Some (Handler ''onOuterKeyDown'') \<and>
      map_of attrs ''onClick'' = Some (Handler ''onMouseClick'') \<and>
      map_of attrs ''onDoubleClick'' = Some (Handler ''onMouseDoubleClick''))"

text \<open>The target of a click is an image button when its class name contains \<open>image-button\<close>.\<close>

definition isImageButton :: "HTMLElement \<Rightarrow> bool" where
  "isImageButton elem =
     (case className elem of
        ClassName_object \<Rightarrow> False
      | ClassName_string c \<Rightarrow> String_includes c ''image-button'')"

section \<open>Supporting lemmas\<close>

text \<open>\<open>String_includes\<close> is the substring test.\<close>

lemma String_includes_sublist: "String_includes s t \<longleftrightarrow> sublist t s"
  by (induction s) (auto simp: sublist_Cons_right)

lemma fst_if: "fst (if c then x else y) = (if c then fst x else fst y)"
  by simp

lemma snd_if: "snd (if c then x else y) = (if c then snd x else snd y)"
  by simp

lemma props_if: "props (if c then x else y) = (if c then props x else props y)"
  by simp

lemmas handler_defs =
  arrowUpFromCell_def arrowDownFromCell_def escapeCell_def enterCell_def shiftEnterCell_def
  ctrlEnterCell_def altEnterCell_def runAndMove_def runAndAdd_def submitCell_def

lemmas sample_defs =
  sampleModules_def sampleCellVM_def sampleProps_def sampleCell_def sampleKey_def
  sampleEditorInfo_def

lemmas accessor_defs =
  isFocused_def isSelected_def isCodeCell_def isMarkdownCell_def get_cellId_def getCurrentCode_def

text \<open>
  A key event changes nothing of the instance but the tracker, and the assignment that
  ends \<open>keyDownInput\<close> always leaves the code of the key just handled in it.
\<close>

lemma keyDownInput_props: "props (snd (keyDownInput im this cellId e)) = props this"
  by (simp add: keyDownInput_def Let_def split_def snd_if props_if
        cong: if_cong split del: if_split)

lemma keyDownInput_lastKeyPressed:
  "lastKeyPressed (snd (keyDownInput im this cellId e)) = Some (code e)"
  by (simp add: keyDownInput_def Let_def split_def)

text \<open>What is called for single keys.\<close>

lemma keyDownInput_y:
  assumes "code e = ''y''"
  shows "fst (keyDownInput im this cellId e) =
    (if \<not> isFocused this \<and> isSelected this \<and> isMarkdownCell this
     then [stopPropagation, preventDefault, changeCellType cellId (getCurrentCode im this),
           sendCommand ChangeToCode ''keyboard'']
     else [])"
  using assms by (simp add: keyDownInput_def Let_def split_def)

lemma keyDownInput_m:
  assumes "code e = ''m''"
  shows "fst (keyDownInput im this cellId e) =
    (if \<not> isFocused this \<and> isSelected this \<and> isCodeCell this
     then [stopPropagation, preventDefault, changeCellType cellId (getCurrentCode im this),
           sendCommand ChangeToMarkdown ''keyboard'']
     else [])"
  using assms by (simp add: keyDownInput_def Let_def split_def)

lemma keyDownInput_other_keys_no_changeCellType:
  assumes "code e \<noteq> ''y''" "code e \<noteq> ''m''"
  shows "\<not> list_ex is_changeCellType (fst (keyDownInput im this cellId e))"
  using assms
  by (simp add: keyDownInput_def Let_def split_def handler_defs fst_if
        split: option.split)

lemma keyDownInput_z:
  assumes "code e = ''z'' \<or> code e = ''Z''"
  shows "fst (keyDownInput im this cellId e) =
     (if isFocused this then []
      else if shiftKey e \<and> \<not> ctrlKey e \<and> \<not> altKey e
           then [stopPropagation, redo, sendCommand Redo ''keyboard'']
      else if \<not> shiftKey e \<and> \<not> altKey e \<and> \<not> ctrlKey e
           then [stopPropagation, undo, sendCommand Undo ''keyboard'']
      else [])"
proof -
  from assms consider "code e = ''z''" | "code e = ''Z''" by blast
  then show ?thesis
  proof cases
    case 1
    then show ?thesis by (simp add: keyDownInput_def Let_def split_def)
  next
    case 2
    then show ?thesis by (simp add: keyDownInput_def Let_def split_def)
  qed
qed

lemma keyDownInput_Enter_shift:
  assumes "code e = ''Enter''" "shiftKey e"
  shows "fst (keyDownInput im this cellId e) = shiftEnterCell im this e"
  using assms by (simp add: keyDownInput_def Let_def split_def)

lemma keyDownInput_d:
  assumes "code e = ''d''"
  shows "fst (keyDownInput im this cellId e) =
    (if lastKeyPressed this = Some ''d'' \<and> \<not> isFocused this \<and> isSelected this
     then [stopPropagation, deleteCell cellId, sendCommand DeleteCell ''keyboard'']
     else [])"
  using assms by (simp add: keyDownInput_def Let_def split_def)

lemma keyDownInput_other_keys_no_deleteCell:
  assumes "code e \<noteq> ''d''"
  shows "\<not> list_ex is_deleteCell (fst (keyDownInput im this cellId e))"
  using assms
  by (simp add: keyDownInput_def Let_def split_def handler_defs fst_if
        split: option.split)

text \<open>
  On the tracker as the code keeps it, \<open>deleteCell\<close> is dispatched exactly for a \<open>d\<close> on
  a cell that is selected and not focused while the tracker holds \<open>d\<close>.
\<close>

lemma keyDownInput_deleteCell_iff:
  "list_ex is_deleteCell (fst (keyDownInput im this cellId e)) \<longleftrightarrow>
     code e = ''d'' \<and> lastKeyPressed this = Some ''d'' \<and> \<not> isFocused this \<and> isSelected this"
proof (cases "code e = ''d''")
  case True
  then show ?thesis by (simp add: keyDownInput_d)
next
  case False
  then show ?thesis using keyDownInput_other_keys_no_deleteCell [OF False, of im this cellId] by simp
qed

text \<open>
  A delete does not clear the tracker: whenever a \<open>d\<close> dispatches \<open>deleteCell\<close>, the same
  key pressed again on the instance it leaves dispatches \<open>deleteCell\<close> once more.
\<close>

lemma keyDownInput_d_deletes_again:
  assumes "code e = ''d''" "lastKeyPressed this = Some ''d''" "\<not> isFocused this" "isSelected this"
  shows "fst (keyDownInput im (snd (keyDownInput im this cellId e)) cellId e) =
           [stopPropagation, deleteCell cellId, sendCommand DeleteCell ''keyboard'']"
  using assms
  by (simp add: keyDownInput_d keyDownInput_lastKeyPressed keyDownInput_props
        isFocused_def isSelected_def)

lemma isCellWrapper_renderNormalCell: "isCellWrapper (renderNormalCell im this)"
  by (simp add: renderNormalCell_def Let_def)

section \<open>Results\<close>

text \<open>
  C1. For every pair of prop records, \<open>shouldComponentUpdate\<close> returns false exactly when
  \<open>fast-deep-equal\<close> finds the current props and the next props deep-equal. The toolkit
  renders again on a prop change only when \<open>shouldComponentUpdate\<close> returns true.
\<close>

theorem shouldComponentUpdate_false_iff_deep_equal:
  "(shouldComponentUpdate im this nextProps = False) =
   fastDeepEqual im (props this) nextProps"
  by (simp add: shouldComponentUpdate_def)

text \<open>
  Witness for C1, with structural equality as the deep comparison: the same props need no
  update, props with another theme do.
\<close>

theorem shouldComponentUpdate_false_iff_deep_equal_witness:
  "shouldComponentUpdate sampleModules
     (sampleCell (sampleProps (sampleCellVM ''c1'' ''code'' (Arr [''x'']) True False) False) None None)
     (sampleProps (sampleCellVM ''c1'' ''code'' (Arr [''x'']) True False) False) = False \<and>
   shouldComponentUpdate sampleModules
     (sampleCell (sampleProps (sampleCellVM ''c1'' ''code'' (Arr [''x'']) True False) False) None None)
     ((sampleProps (sampleCellVM ''c1'' ''code'' (Arr [''x'']) True False) False)
        \<lparr>baseTheme := ''vscode-dark''\<rparr>) = True"
  using shouldComponentUpdate_false_iff_deep_equal [of sampleModules
      "sampleCell (sampleProps (sampleCellVM ''c1'' ''code'' (Arr [''x'']) True False) False) None None"
      "sampleProps (sampleCellVM ''c1'' ''code'' (Arr [''x'']) True False) False"]
    shouldComponentUpdate_false_iff_deep_equal [of sampleModules
      "sampleCell (sampleProps (sampleCellVM ''c1'' ''code'' (Arr [''x'']) True False) False) None None"
      "(sampleProps (sampleCellVM ''c1'' ''code'' (Arr [''x'']) True False) False)
         \<lparr>baseTheme := ''vscode-dark''\<rparr>"]
  by (simp add: sample_defs)

text \<open>
  C2, as amended. The claim lets the two runs agree on the key code, the modifier flags,
  the host OS and the focused and selected flags only. What \<open>keyDownInput\<close> calls also
  depends on the editor info of the event, the last key pressed, the cell's type, id and
  source, whether it is the last cell, the contents of the mounted editor and whether the
  wrapper element is mounted. Two runs that agree on all of these (and are handed the
  same cell id) call the same things in the same order, whatever the rest of the props,
  of the view-model and of the instance is.
\<close>

theorem keyDownInput_determined_by_inputs:
  assumes "code e1 = code e2" "shiftKey e1 = shiftKey e2" "ctrlKey e1 = ctrlKey e2"
    "altKey e1 = altKey e2" "metaKey e1 = metaKey e2"
    "getOSType im1 = getOSType im2"
    "isFocused this1 = isFocused this2" "isSelected this1 = isSelected this2"
    "editorInfo e1 = editorInfo e2"
    "lastKeyPressed this1 = lastKeyPressed this2"
    "cell_type (data (cell (cellVM (props this1)))) = cell_type (data (cell (cellVM (props this2))))"
    "id_cell (cell (cellVM (props this1))) = id_cell (cell (cellVM (props this2)))"
    "source (data (cell (cellVM (props this1)))) = source (data (cell (cellVM (props this2))))"
    "lastCell (props this1) = lastCell (props this2)"
    "inputRef_current this1 = inputRef_current this2"
    "(wrapperRef_current this1 = None) = (wrapperRef_current this2 = None)"
    "concatMultilineStringInput im1 = concatMultilineStringInput im2"
  shows "fst (keyDownInput im1 this1 cellId e1) = fst (keyDownInput im2 this2 cellId e2)"
  using assms
  by (simp add: keyDownInput_def Let_def split_def isCodeCell_def isMarkdownCell_def
        handler_defs getCurrentCode_def get_cellId_def fst_if
        cong: if_cong option.case_cong split del: if_split)

text \<open>
  Witness for C2: a second \<open>d\<close> on a selected cell, once as it is and once with other
  themes, flags of the view-model and localisation; both runs delete the cell.
\<close>

theorem keyDownInput_determined_by_inputs_witness:
  "fst (keyDownInput sampleModules
      (sampleCell (sampleProps (sampleCellVM ''c1'' ''code'' (Arr [''x'']) True False) False) None (Some ''d''))
      ''c1'' (sampleKey ''d'' False None)) =
   fst (keyDownInput (sampleModules\<lparr>getLocString := (\<lambda>key defValue. key), EditCellId := ''other''\<rparr>)
      (sampleCell
         ((sampleProps ((sampleCellVM ''c1'' ''code'' (Arr [''x'']) True False)
                          \<lparr>editable := False, hideOutput := Some True\<rparr>) False)
            \<lparr>baseTheme := ''vscode-dark'', firstCell := True\<rparr>)
         None (Some ''d''))
      ''c1'' (sampleKey ''d'' False None)) \<and>
   fst (keyDownInput sampleModules
      (sampleCell (sampleProps (sampleCellVM ''c1'' ''code'' (Arr [''x'']) True False) False) None (Some ''d''))
      ''c1'' (sampleKey ''d'' False None)) =
     [stopPropagation, deleteCell ''c1'', sendCommand DeleteCell ''keyboard'']"
proof -
  have "fst (keyDownInput sampleModules
      (sampleCell (sampleProps (sampleCellVM ''c1'' ''code'' (Arr [''x'']) True False) False) None (Some ''d''))
      ''c1'' (sampleKey ''d'' False None)) =
   fst (keyDownInput (sampleModules\<lparr>getLocString := (\<lambda>key defValue. key), EditCellId := ''other''\<rparr>)
      (sampleCell
         ((sampleProps ((sampleCellVM ''c1'' ''code'' (Arr [''x'']) True False)
                          \<lparr>editable := False, hideOutput := Some True\<rparr>) False)
            \<lparr>baseTheme := ''vscode-dark'', firstCell := True\<rparr>)
         None (Some ''d''))
      ''c1'' (sampleKey ''d'' False None))"
    by (rule keyDownInput_determined_by_inputs) (simp_all add: sample_defs isFocused_def isSelected_def)
  moreover have "fst (keyDownInput sampleModules
      (sampleCell (sampleProps (sampleCellVM ''c1'' ''code'' (Arr [''x'']) True False) False) None (Some ''d''))
      ''c1'' (sampleKey ''d'' False None)) =
     [stopPropagation, deleteCell ''c1'', sendCommand DeleteCell ''keyboard'']"
    by (simp add: keyDownInput_def Let_def split_def sample_defs accessor_defs)
  ultimately show ?thesis by simp
qed

text \<open>
  Counterexample to C2 as stated. In each of the eight pairs the two runs have the same
  key code, modifier flags, host OS, focused flag and selected flag, and what is called
  differs. The pairs differ, in turn, in the last key pressed (\<open>d\<close>), the cell type
  (\<open>m\<close>), the cell source and the last-cell flag (Shift+Enter), the editor info
  (Shift+Enter inside the editor), the cell id (Enter), the contents of the mounted
  editor (\<open>m\<close>) and the wrapper element (Escape).
\<close>

theorem keyDownInput_hidden_inputs_counterexample:
  "fst (keyDownInput sampleModules
      (sampleCell (sampleProps (sampleCellVM ''c1'' ''code'' (Arr [''x'']) True False) False) None (Some ''d''))
      ''c1'' (sampleKey ''d'' False None)) \<noteq>
   fst (keyDownInput sampleModules
      (sampleCell (sampleProps (sampleCellVM ''c1'' ''code'' (Arr [''x'']) True False) False) None None)
      ''c1'' (sampleKey ''d'' False None)) \<and>
   fst (keyDownInput sampleModules
      (sampleCell (sampleProps (sampleCellVM ''c1'' ''code'' (Arr [''x'']) True False) False) None None)
      ''c1'' (sampleKey ''m'' False None)) \<noteq>
   fst (keyDownInput sampleModules
      (sampleCell (sampleProps (sampleCellVM ''c1'' ''markdown'' (Arr [''x'']) True False) False) None None)
      ''c1'' (sampleKey ''m'' False None)) \<and>
   fst (keyDownInput sampleModules
      (sampleCell (sampleProps (sampleCellVM ''c1'' ''code'' (Arr [''x'']) True False) False) None None)
      ''c1'' (sampleKey ''Enter'' True None)) \<noteq>
   fst (keyDownInput sampleModules
      (sampleCell (sampleProps (sampleCellVM ''c1'' ''code'' (Arr [''y'']) True False) False) None None)
      ''c1'' (sampleKey ''Enter'' True None)) \<and>
   fst (keyDownInput sampleModules
      (sampleCell (sampleProps (sampleCellVM ''c1'' ''code'' (Arr [''x'']) True False) True) None None)
      ''c1'' (sampleKey ''Enter'' True None)) \<noteq>
   fst (keyDownInput sampleModules
      (sampleCell (sampleProps (sampleCellVM ''c1'' ''code'' (Arr [''x'']) True False) False) None None)
      ''c1'' (sampleKey ''Enter'' True None)) \<and>
   fst (keyDownInput sampleModules
      (sampleCell (sampleProps (sampleCellVM ''c1'' ''code'' (Arr [''x'']) True True) False) None None)
      ''c1'' (sampleKey ''Enter'' True (Some (sampleEditorInfo ''a'')))) \<noteq>
   fst (keyDownInput sampleModules
      (sampleCell (sampleProps (sampleCellVM ''c1'' ''code'' (Arr [''x'']) True True) False) None None)
      ''c1'' (sampleKey ''Enter'' True (Some (sampleEditorInfo ''b'')))) \<and>
   fst (keyDownInput sampleModules
      (sampleCell (sampleProps (sampleCellVM ''c1'' ''code'' (Arr [''x'']) True False) False) None None)
      ''c1'' (sampleKey ''Enter'' False None)) \<noteq>
   fst (keyDownInput sampleModules
      (sampleCell (sampleProps (sampleCellVM ''c2'' ''code'' (Arr [''x'']) True False) False) None None)
      ''c1'' (sampleKey ''Enter'' False None)) \<and>
   fst (keyDownInput sampleModules
      (sampleCell (sampleProps (sampleCellVM ''c1'' ''code'' (Arr [''x'']) True False) False)
         (Some (Some ''abc'')) None)
      ''c1'' (sampleKey ''m'' False None)) \<noteq>
   fst (keyDownInput sampleModules
      (sampleCell (sampleProps (sampleCellVM ''c1'' ''code'' (Arr [''x'']) True False) False) None None)
      ''c1'' (sampleKey ''m'' False None)) \<and>
   fst (keyDownInput sampleModules
      (sampleCell (sampleProps (sampleCellVM ''c1'' ''code'' (Arr [''x'']) True True) False) None None)
      ''c1'' (sampleKey ''Escape'' False (Some (sampleEditorInfo ''a'')))) \<noteq>
   fst (keyDownInput sampleModules
      ((sampleCell (sampleProps (sampleCellVM ''c1'' ''code'' (Arr [''x'']) True True) False) None None)
         \<lparr>wrapperRef_current := None\<rparr>)
      ''c1'' (sampleKey ''Escape'' False (Some (sampleEditorInfo ''a''))))"
  by (simp add: keyDownInput_def Let_def split_def sample_defs handler_defs accessor_defs)

text \<open>
  C3, as amended. For every keyboard event with code \<open>Enter\<close> and the shift key set,
  \<open>keyDownInput\<close> stops the event, takes as content the editor contents when editor info
  is present and the concatenated cell source otherwise, dispatches \<open>executeCell\<close> for
  this cell with that content when the content is not empty (with move operation
  \<open>add\<close> on the last cell and \<open>select\<close> otherwise), and then sends \<open>RunAndMove\<close>. With
  empty content nothing is executed.
\<close>

theorem keyDownInput_shift_Enter_runs_nonempty:
  assumes "code e = ''Enter''" "shiftKey e"
  shows "fst (keyDownInput im this cellId e) =
    [stopPropagation, preventDefault] @
    (let content = (case editorInfo e of
                      Some i \<Rightarrow> contents i
                    | None \<Rightarrow> concatMultilineStringInput im (source (data (cell (cellVM (props this))))))
     in if content \<noteq> []
        then [executeCell (get_cellId this) content (if lastCell (props this) then ''add'' else ''select'')]
        else []) @
    [sendCommand RunAndMove ''keyboard'']"
  by (simp add: keyDownInput_Enter_shift [OF assms] shiftEnterCell_def runAndMove_def
        submitCell_def Let_def split: option.split)

text \<open>Witness for C3: Shift+Enter on a selected code cell that is not the last one.\<close>

theorem keyDownInput_shift_Enter_runs_nonempty_witness:
  "code (sampleKey ''Enter'' True None) = ''Enter'' \<and> shiftKey (sampleKey ''Enter'' True None) \<and>
   fst (keyDownInput sampleModules
          (sampleCell (sampleProps (sampleCellVM ''c1'' ''code'' (Arr [''print(1)'']) True False) False)
             None None)
          ''c1'' (sampleKey ''Enter'' True None)) =
     [stopPropagation, preventDefault, executeCell ''c1'' ''print(1)'' ''select'',
      sendCommand RunAndMove ''keyboard'']"
  using keyDownInput_shift_Enter_runs_nonempty [of "sampleKey ''Enter'' True None" sampleModules
     "sampleCell (sampleProps (sampleCellVM ''c1'' ''code'' (Arr [''print(1)'']) True False) False) None None"
     "''c1''"]
  by (simp add: sample_defs get_cellId_def)

text \<open>
  Counterexample to C3 as stated: Shift+Enter inside an editor whose contents are the
  empty string dispatches no \<open>executeCell\<close>.
\<close>

theorem keyDownInput_shift_Enter_empty_counterexample:
  "code (sampleKey ''Enter'' True (Some (sampleEditorInfo []))) = ''Enter'' \<and>
   shiftKey (sampleKey ''Enter'' True (Some (sampleEditorInfo []))) \<and>
   \<not> list_ex is_executeCell
       (fst (keyDownInput sampleModules
          (sampleCell (sampleProps (sampleCellVM ''c1'' ''code'' (Arr [''print(1)'']) True True) False)
             (Some (Some [])) None)
          ''c1'' (sampleKey ''Enter'' True (Some (sampleEditorInfo [])))))"
  by (simp add: keyDownInput_def Let_def split_def sample_defs handler_defs accessor_defs)

text \<open>
  C4. The claim: a \<open>d\<close> deletes the cell exactly when the cell is selected, not focused
  and the key before was a \<open>d\<close>, and after a delete the tracker is reset, so that the
  next single \<open>d\<close> does not delete. The code at the input the claim is about: the
  tracker holds \<open>d\<close> and a \<open>d\<close> arrives on a selected cell. \<open>deleteCell\<close> is dispatched,
  the tracker afterwards holds \<open>d\<close> again, and the next \<open>d\<close> dispatches \<open>deleteCell\<close>
  once more.
\<close>

theorem keyDownInput_dd_tracker_not_reset:
  "fst (keyDownInput sampleModules
          (sampleCell (sampleProps (sampleCellVM ''c1'' ''code'' (Arr [''x'']) True False) False)
             None (Some ''d''))
          ''c1'' (sampleKey ''d'' False None)) =
     [stopPropagation, deleteCell ''c1'', sendCommand DeleteCell ''keyboard''] \<and>
   lastKeyPressed (snd (keyDownInput sampleModules
          (sampleCell (sampleProps (sampleCellVM ''c1'' ''code'' (Arr [''x'']) True False) False)
             None (Some ''d''))
          ''c1'' (sampleKey ''d'' False None))) = Some ''d'' \<and>
   fst (keyDownInput sampleModules
          (snd (keyDownInput sampleModules
             (sampleCell (sampleProps (sampleCellVM ''c1'' ''code'' (Arr [''x'']) True False) False)
                None (Some ''d''))
             ''c1'' (sampleKey ''d'' False None)))
          ''c1'' (sampleKey ''d'' False None)) =
     [stopPropagation, deleteCell ''c1'', sendCommand DeleteCell ''keyboard'']"
  by (simp add: keyDownInput_def Let_def split_def sample_defs accessor_defs)

text \<open>
  C5. For every keyboard event, \<open>keyDownInput\<close> dispatches \<open>changeCellType\<close> exactly when
  the cell is not focused, is selected, and either the key is \<open>m\<close> on a code cell or the
  key is \<open>y\<close> on a markdown cell. In the first case it dispatches \<open>changeCellType\<close> with
  the current code and sends \<open>ChangeToMarkdown\<close>, in the second it dispatches
  \<open>changeCellType\<close> with the current code and sends \<open>ChangeToCode\<close>.
\<close>

theorem keyDownInput_changeCellType:
  "(list_ex is_changeCellType (fst (keyDownInput im this cellId e)) \<longleftrightarrow>
      \<not> isFocused this \<and> isSelected this \<and>
      (code e = ''m'' \<and> isCodeCell this \<or> code e = ''y'' \<and> isMarkdownCell this)) \<and>
   (\<not> isFocused this \<and> isSelected this \<and> code e = ''m'' \<and> isCodeCell this \<longrightarrow>
      fst (keyDownInput im this cellId e) =
        [stopPropagation, preventDefault, changeCellType cellId (getCurrentCode im this),
         sendCommand ChangeToMarkdown ''keyboard'']) \<and>
   (\<not> isFocused this \<and> isSelected this \<and> code e = ''y'' \<and> isMarkdownCell this \<longrightarrow>
      fst (keyDownInput im this cellId e) =
        [stopPropagation, preventDefault, changeCellType cellId (getCurrentCode im this),
         sendCommand ChangeToCode ''keyboard''])"
proof -
  consider "code e = ''y''" | "code e = ''m''" | "code e \<noteq> ''y''" "code e \<noteq> ''m''"
    by blast
  then show ?thesis
  proof cases
    case 1
    then show ?thesis by (simp add: keyDownInput_y)
  next
    case 2
    then show ?thesis by (simp add: keyDownInput_m)
  next
    case 3
    then show ?thesis
      using keyDownInput_other_keys_no_changeCellType [OF 3, of im this cellId] by simp
  qed
qed

text \<open>Witness for C5: \<open>m\<close> on a selected code cell with no editor mounted.\<close>

theorem keyDownInput_changeCellType_witness:
  "\<not> isFocused (sampleCell (sampleProps (sampleCellVM ''c1'' ''code'' (Arr [''x'']) True False) False) None None) \<and>
   isSelected (sampleCell (sampleProps (sampleCellVM ''c1'' ''code'' (Arr [''x'']) True False) False) None None) \<and>
   code (sampleKey ''m'' False None) = ''m'' \<and>
   isCodeCell (sampleCell (sampleProps (sampleCellVM ''c1'' ''code'' (Arr [''x'']) True False) False) None None) \<and>
   fst (keyDownInput sampleModules
      (sampleCell (sampleProps (sampleCellVM ''c1'' ''code'' (Arr [''x'']) True False) False) None None)
      ''c1'' (sampleKey ''m'' False None)) =
     [stopPropagation, preventDefault, changeCellType ''c1'' ''x'',
      sendCommand ChangeToMarkdown ''keyboard'']"
  using keyDownInput_changeCellType [of sampleModules
      "sampleCell (sampleProps (sampleCellVM ''c1'' ''code'' (Arr [''x'']) True False) False) None None"
      "''c1''" "sampleKey ''m'' False None"]
  by (simp add: sample_defs accessor_defs)

text \<open>
  C6. For every keyboard event with code \<open>z\<close> or \<open>Z\<close>: on a cell that is not focused,
  \<open>keyDownInput\<close> dispatches \<open>redo\<close> (and sends \<open>Redo\<close>) when shift is held without ctrl
  or alt, dispatches \<open>undo\<close> (and sends \<open>Undo\<close>) when none of shift, ctrl and alt is
  held, and calls nothing otherwise; on a focused cell it calls nothing.
\<close>

theorem keyDownInput_undo_redo:
  assumes "code e = ''z'' \<or> code e = ''Z''"
  shows "fst (keyDownInput im this cellId e) =
           (if isFocused this then []
            else if shiftKey e \<and> \<not> ctrlKey e \<and> \<not> altKey e
                 then [stopPropagation, redo, sendCommand Redo ''keyboard'']
            else if \<not> shiftKey e \<and> \<not> ctrlKey e \<and> \<not> altKey e
                 then [stopPropagation, undo, sendCommand Undo ''keyboard'']
            else []) \<and>
         (redo \<in> set (fst (keyDownInput im this cellId e)) \<longleftrightarrow>
            \<not> isFocused this \<and> shiftKey e \<and> \<not> ctrlKey e \<and> \<not> altKey e) \<and>
         (undo \<in> set (fst (keyDownInput im this cellId e)) \<longleftrightarrow>
            \<not> isFocused this \<and> \<not> shiftKey e \<and> \<not> ctrlKey e \<and> \<not> altKey e)"
  by (auto simp: keyDownInput_z [OF assms])

text \<open>Witness for C6: Shift+Z on a cell that is not focused.\<close>

theorem keyDownInput_undo_redo_witness:
  "(code (sampleKey ''Z'' True None) = ''z'' \<or> code (sampleKey ''Z'' True None) = ''Z'') \<and>
   redo \<in> set (fst (keyDownInput sampleModules
      (sampleCell (sampleProps (sampleCellVM ''c1'' ''code'' (Arr [''x'']) True False) False) None None)
      ''c1'' (sampleKey ''Z'' True None))) \<and>
   undo \<notin> set (fst (keyDownInput sampleModules
      (sampleCell (sampleProps (sampleCellVM ''c1'' ''code'' (Arr [''x'']) True False) False) None None)
      ''c1'' (sampleKey ''Z'' True None)))"
  using keyDownInput_undo_redo [of "sampleKey ''Z'' True None" sampleModules
      "sampleCell (sampleProps (sampleCellVM ''c1'' ''code'' (Arr [''x'']) True False) False) None None"
      "''c1''"]
  by (simp add: sample_defs isFocused_def)

text \<open>
  C7. A single click whose target is an element that is not an image button stops the
  event, clears the last-key tracker and dispatches \<open>selectCell\<close> for this cell's id; a
  double click stops the event and dispatches \<open>focusCell\<close> for this cell's id with cursor
  position \<open>Current\<close>.
\<close>

theorem mouse_click_selects_double_click_focuses:
  "(nativeEvent_target ev = Some elem \<and> \<not> isImageButton elem \<longrightarrow>
      onMouseClick this ev =
        ([stopPropagation, selectCell (get_cellId this)], this\<lparr>lastKeyPressed := None\<rparr>)) \<and>
   onMouseDoubleClick this ev' = [stopPropagation, focusCell (get_cellId this) CursorPos_Current]"
  by (auto simp: onMouseClick_def onMouseDoubleClick_def isImageButton_def split: ClassName.splits)

text \<open>Witness for C7: a click on the wrapper of a cell whose tracker holds \<open>d\<close>.\<close>

theorem mouse_click_selects_double_click_focuses_witness:
  "nativeEvent_target \<lparr>nativeEvent_target = Some \<lparr>className = ClassName_string ''cell-wrapper''\<rparr>\<rparr> =
     Some \<lparr>className = ClassName_string ''cell-wrapper''\<rparr> \<and>
   \<not> isImageButton \<lparr>className = ClassName_string ''cell-wrapper''\<rparr> \<and>
   fst (onMouseClick
          (sampleCell (sampleProps (sampleCellVM ''c1'' ''code'' (Arr [''x'']) False False) False)
             None (Some ''d''))
          \<lparr>nativeEvent_target = Some \<lparr>className = ClassName_string ''cell-wrapper''\<rparr>\<rparr>) =
     [stopPropagation, selectCell ''c1''] \<and>
   lastKeyPressed (snd (onMouseClick
          (sampleCell (sampleProps (sampleCellVM ''c1'' ''code'' (Arr [''x'']) False False) False)
             None (Some ''d''))
          \<lparr>nativeEvent_target = Some \<lparr>className = ClassName_string ''cell-wrapper''\<rparr>\<rparr>)) = None \<and>
   onMouseDoubleClick
     (sampleCell (sampleProps (sampleCellVM ''c1'' ''code'' (Arr [''x'']) False False) False)
        None (Some ''d''))
     \<lparr>nativeEvent_target = None\<rparr> = [stopPropagation, focusCell ''c1'' CursorPos_Current]"
  using mouse_click_selects_double_click_focuses
    [of "\<lparr>nativeEvent_target = Some \<lparr>className = ClassName_string ''cell-wrapper''\<rparr>\<rparr>"
        "\<lparr>className = ClassName_string ''cell-wrapper''\<rparr>"
        "sampleCell (sampleProps (sampleCellVM ''c1'' ''code'' (Arr [''x'']) False False) False)
           None (Some ''d'')"
        "\<lparr>nativeEvent_target = None\<rparr>"]
  by (simp add: isImageButton_def sample_defs get_cellId_def)

text \<open>
  C8, as amended. \<open>render\<close> has two branches: for a cell whose type is \<open>messages\<close> it
  returns the \<open>InformationMessages\<close> element with the cell's messages, and for every other
  cell it returns the normal cell wrapper of \<open>renderNormalCell\<close>.
\<close>

theorem render_normal_unless_messages:
  "(cell_type (data (cell (cellVM (props this)))) \<noteq> ''messages'' \<longrightarrow>
      render im this = renderNormalCell im this \<and> isCellWrapper (render im this)) \<and>
   (cell_type (data (cell (cellVM (props this)))) = ''messages'' \<longrightarrow>
      render im this =
        Element ''InformationMessages''
          [(''messages'', Strings (messages (data (cell (cellVM (props this))))))] [] \<and>
      \<not> isCellWrapper (render im this))"
  by (simp add: render_def isCellWrapper_renderNormalCell)

text \<open>Witness for C8: a code cell and a messages cell.\<close>

theorem render_normal_unless_messages_witness:
  "cell_type (data (cell (cellVM (props
     (sampleCell (sampleProps (sampleCellVM ''c1'' ''code'' (Arr []) False False) False) None None)))))
     \<noteq> ''messages'' \<and>
   isCellWrapper (render sampleModules
     (sampleCell (sampleProps (sampleCellVM ''c1'' ''code'' (Arr []) False False) False) None None)) \<and>
   cell_type (data (cell (cellVM (props
     (sampleCell (sampleProps (sampleCellVM ''c2'' ''messages'' (Arr []) False False) False) None None)))))
     = ''messages'' \<and>
   render sampleModules
     (sampleCell (sampleProps (sampleCellVM ''c2'' ''messages'' (Arr []) False False) False) None None) =
     Element ''InformationMessages'' [(''messages'', Strings [''Connected''])] []"
  using render_normal_unless_messages [of
      "sampleCell (sampleProps (sampleCellVM ''c1'' ''code'' (Arr []) False False) False) None None"
      sampleModules]
    render_normal_unless_messages [of
      "sampleCell (sampleProps (sampleCellVM ''c2'' ''messages'' (Arr []) False False) False) None None"
      sampleModules]
  by (simp add: sample_defs isCellWrapper_renderNormalCell)

text \<open>
  Counterexample to C8 as stated: a cell of type \<open>messages\<close> is neither code nor markdown,
  and \<open>render\<close> returns the \<open>InformationMessages\<close> element for it, not the cell wrapper.
\<close>

theorem render_messages_counterexample:
  "cell_type (data (cell (cellVM (props
     (sampleCell (sampleProps (sampleCellVM ''c1'' ''messages'' (Arr []) False False) False) None None)))))
     \<noteq> ''code'' \<and>
   cell_type (data (cell (cellVM (props
     (sampleCell (sampleProps (sampleCellVM ''c1'' ''messages'' (Arr []) False False) False) None None)))))
     \<noteq> ''markdown'' \<and>
   render sampleModules
     (sampleCell (sampleProps (sampleCellVM ''c1'' ''messages'' (Arr []) False False) False) None None) =
     Element ''InformationMessages'' [(''messages'', Strings [''Connected''])] [] \<and>
   \<not> isCellWrapper (render sampleModules
     (sampleCell (sampleProps (sampleCellVM ''c1'' ''messages'' (Arr []) False False) False) None None))"
  by (simp add: render_def sample_defs)

text \<open>
  C9. If no editor contents are supplied and the concatenation of the cell's source is
  the empty string, \<open>submitCell\<close> dispatches nothing, so no \<open>executeCell\<close>.
\<close>

theorem submitCell_empty_source_noop:
  assumes "concatMultilineStringInput im (source (data (cell (cellVM (props this))))) = []"
  shows "submitCell im this None moveOp = []"
  using assms by (simp add: submitCell_def)

text \<open>Witness for C9: a cell whose source is the empty array.\<close>

theorem submitCell_empty_source_noop_witness:
  "joinLines (Arr []) = [] \<and>
   submitCell sampleModules
     (sampleCell (sampleProps (sampleCellVM ''c1'' ''code'' (Arr []) True False) False) None None)
     None ''select'' = []"
  using submitCell_empty_source_noop [of sampleModules
     "sampleCell (sampleProps (sampleCellVM ''c1'' ''code'' (Arr []) True False) False) None None"
     "''select''"]
  by (simp add: sample_defs)

text \<open>
  C10. The constructor of JupyterDebuggerNotInstalledError sets the message to the given
  one when it is present and not empty, and to the localized default string when the
  argument is omitted or is the empty string.
\<close>

theorem JupyterDebuggerNotInstalledError_message:
  "message (JupyterDebuggerNotInstalledError dflt (Some (c # cs))) = c # cs \<and>
   message (JupyterDebuggerNotInstalledError dflt None) = dflt \<and>
   message (JupyterDebuggerNotInstalledError dflt (Some [])) = dflt"
  by (simp add: JupyterDebuggerNotInstalledError_def)

text \<open>Witness for C10: a message, no message and the empty message.\<close>

theorem JupyterDebuggerNotInstalledError_message_witness:
  "message (JupyterDebuggerNotInstalledError ''Debugger not installed'' (Some ''ptvsd missing'')) =
     ''ptvsd missing'' \<and>
   message (JupyterDebuggerNotInstalledError ''Debugger not installed'' None) =
     ''Debugger not installed'' \<and>
   message (JupyterDebuggerNotInstalledError ''Debugger not installed'' (Some [])) =
     ''Debugger not installed''"
  using JupyterDebuggerNotInstalledError_message [of "''Debugger not installed''" "CHR ''p''" "''tvsd missing''"]
  by simp

end
